theory Spec2Isabelle
  imports Main "HOL-Library.AList"
begin

section \<open>Data model\<close>

text \<open>
  The bootstrap code of package \<open>deps\<close> works on files of a data directory. A path is a
  string. The content of a file is kept in the form its reader parses it to: a PEM file of
  certificates is the list of its certificates, a PEM key file the list of its keys, the
  credential table its entries, a JSON document the value it serialises; anything else is
  plain bytes.
\<close>

type_synonym path = string

datatype errno = ENOENT | EEXIST | EACCES | EIO

datatype error =
    PathError errno path
  | InvalidCertData path
  | InvalidKeyData
  | KeyLoadError path
  | EntropyError
  | UnsupportedKeyType string
  | CertError string
  | OtherError string
  | IndexOutOfRange

datatype ExtKeyUsage = ExtKeyUsageServerAuth | ExtKeyUsageClientAuth

text \<open>The fields of \<open>x509.Certificate\<close> the code reads or sets. An IP address is kept as the
  text \<open>net.IP.String\<close> prints.\<close>

record cert =
  CommonName :: string
  Organization :: "string list"
  DNSNames :: "string list"
  IPAddresses :: "string list"
  SubjectKeyId :: string
  AuthorityKeyId :: string
  NotAfter :: nat
  ExtKeyUsages :: "ExtKeyUsage list"
  IsCA :: bool

datatype privkey = PrivKey string

record AltNames =
  altDNSNames :: "string list"
  altIPs :: "string list"

record CertConfig =
  cfgCommonName :: string
  cfgOrganization :: "string list"
  cfgAltNames :: AltNames
  cfgUsages :: "ExtKeyUsage list"

record Key =
  keyName :: string
  keySecret :: string

datatype ProviderConfiguration =
    AESCBC "Key list"
  | Secretbox "Key list"
  | Identity

record ResourceConfiguration =
  rcResources :: "string list"
  rcProviders :: "ProviderConfiguration list"

record EncryptionConfiguration =
  encKind :: string
  encAPIVersion :: string
  encResources :: "ResourceConfiguration list"

datatype ProxyProtocol = ProtocolDirect | ProtocolHTTPConnect

record TCPTransport =
  tcpURL :: string
  tlsCABundle :: string
  tlsClientKey :: string
  tlsClientCert :: string

record Connection =
  connProxyProtocol :: ProxyProtocol
  connTransport :: "TCPTransport option"

record EgressSelection =
  egressName :: string
  egressConnection :: Connection

record EgressSelectorConfiguration =
  egKind :: string
  egAPIVersion :: string
  egressSelections :: "EgressSelection list"

record CloudConfig =
  LBDefaultPriorityClassName :: string
  LBEnabled :: bool
  LBNamespace :: string
  LBImage :: string
  cloudRootless :: bool
  NodeEnabled :: bool

text \<open>An entry of the credential table: the group (role) and the secret of a user name.\<close>

type_synonym passwd_table = "(string \<times> (string \<times> string)) list"

datatype fileData =
    Bytes string
  | PEMCerts "cert list"
  | PEMKeys "privkey list"
  | PasswdCSV passwd_table
  | EncryptionJSON EncryptionConfiguration
  | EgressJSON EgressSelectorConfiguration
  | CloudJSON CloudConfig

datatype FileInfo = FileInfo (Size_pos: bool)

fun nonempty_data :: "fileData \<Rightarrow> bool" where
  "nonempty_data (Bytes b) = (b \<noteq> [])"
| "nonempty_data (PEMCerts cs) = (cs \<noteq> [])"
| "nonempty_data (PEMKeys ks) = (ks \<noteq> [])"
| "nonempty_data (PasswdCSV t) = (t \<noteq> [])"
| "nonempty_data (EncryptionJSON c) = True"
| "nonempty_data (EgressJSON c) = True"
| "nonempty_data (CloudJSON c) = True"

subsection \<open>The file system and the rest of the state\<close>

text \<open>
  A directory entry names an inode and the inode holds the data, so that two names made
  by \<open>os.Link\<close> share one file. \<open>fault\<close> is the environment: an operation on a path for
  which it gives an error number fails with it and changes nothing. \<open>trace\<close> records
  every file that was opened for writing, removed or linked, in order. The random source
  is a tape of bytes read from position \<open>rpos\<close>; \<open>now\<close> is the clock in seconds.
  The last three fields are the fields of the configuration and of its runtime that the
  bootstrap assigns.
\<close>

datatype fsop = OpStat | OpRead | OpWrite | OpRemove | OpLink

datatype event = EvWrite path | EvRemove path | EvLink path path

record state =
  names :: "path \<rightharpoonup> nat"
  inodes :: "nat \<Rightarrow> fileData"
  next_ino :: nat
  trace :: "event list"
  fault :: "fsop \<Rightarrow> path \<Rightarrow> errno option"
  tape :: "nat \<Rightarrow> char"
  rpos :: nat
  entropy_ok :: bool
  now :: nat
  IPSECPSK :: string
  rtAgentToken :: string
  rtServerToken :: string

type_synonym 'a M = "state \<Rightarrow> (error + 'a) \<times> state"

definition ret :: "'a \<Rightarrow> 'a M" where
  "ret x = (\<lambda>s. (Inr x, s))"

definition fail :: "error \<Rightarrow> 'a M" where
  "fail e = (\<lambda>s. (Inl e, s))"

text \<open>Sequencing with Go's \<open>if err != nil { return err }\<close>: the first error ends the run.\<close>

definition bind :: "'a M \<Rightarrow> ('a \<Rightarrow> 'b M) \<Rightarrow> 'b M" where
  "bind m f = (\<lambda>s. case m s of (Inl e, s') \<Rightarrow> (Inl e, s') | (Inr x, s') \<Rightarrow> f x s')"

definition liftE :: "error + 'a \<Rightarrow> 'a M" where
  "liftE r = (\<lambda>s. (r, s))"

definition reading :: "(state \<Rightarrow> error + 'a) \<Rightarrow> 'a M" where
  "reading f = (\<lambda>s. (f s, s))"

definition content :: "state \<Rightarrow> path \<Rightarrow> fileData option" where
  "content s p = map_option (inodes s) (names s p)"

definition IsNotExist :: "error \<Rightarrow> bool" where
  "IsNotExist e = (case e of PathError ENOENT p \<Rightarrow> True | _ \<Rightarrow> False)"

definition os_Stat :: "state \<Rightarrow> path \<Rightarrow> error + FileInfo" where
  "os_Stat s p =
     (case fault s OpStat p of
        Some e \<Rightarrow> Inl (PathError e p)
      | None \<Rightarrow>
          (case content s p of
             None \<Rightarrow> Inl (PathError ENOENT p)
           | Some d \<Rightarrow> Inr (FileInfo (nonempty_data d))))"

definition os_ReadFile :: "state \<Rightarrow> path \<Rightarrow> error + fileData" where
  "os_ReadFile s p =
     (case fault s OpRead p of
        Some e \<Rightarrow> Inl (PathError e p)
      | None \<Rightarrow>
          (case content s p of
             None \<Rightarrow> Inl (PathError ENOENT p)
           | Some d \<Rightarrow> Inr d))"

text \<open>\<open>os.WriteFile\<close> and \<open>os.OpenFile\<close> with \<open>O_CREATE|O_TRUNC\<close>: an existing file is
  truncated in place (its inode stays, so every name of it sees the new data), a missing
  one is created.\<close>

definition os_WriteFile :: "path \<Rightarrow> fileData \<Rightarrow> unit M" where
  "os_WriteFile p d = (\<lambda>s.
     case fault s OpWrite p of
       Some e \<Rightarrow> (Inl (PathError e p), s)
     | None \<Rightarrow>
         (case names s p of
            Some i \<Rightarrow>
              (Inr (), s\<lparr>inodes := (inodes s)(i := d), trace := trace s @ [EvWrite p]\<rparr>)
          | None \<Rightarrow>
              (Inr (), s\<lparr>names := (names s)(p \<mapsto> next_ino s),
                          inodes := (inodes s)(next_ino s := d),
                          next_ino := Suc (next_ino s),
                          trace := trace s @ [EvWrite p]\<rparr>)))"

text \<open>\<open>os.Link old new\<close>: a second name for the inode of \<open>old\<close>; it fails when \<open>old\<close>
  is missing or \<open>new\<close> exists.\<close>

definition os_Link :: "path \<Rightarrow> path \<Rightarrow> unit M" where
  "os_Link old new = (\<lambda>s.
     case fault s OpLink new of
       Some e \<Rightarrow> (Inl (PathError e new), s)
     | None \<Rightarrow>
         (case names s old of
            None \<Rightarrow> (Inl (PathError ENOENT old), s)
          | Some i \<Rightarrow>
              (case names s new of
                 Some j \<Rightarrow> (Inl (PathError EEXIST new), s)
               | None \<Rightarrow>
                   (Inr (), s\<lparr>names := (names s)(new \<mapsto> i),
                               trace := trace s @ [EvLink old new]\<rparr>))))"

definition os_Remove :: "path \<Rightarrow> unit M" where
  "os_Remove p = (\<lambda>s.
     case fault s OpRemove p of
       Some e \<Rightarrow> (Inl (PathError e p), s)
     | None \<Rightarrow>
         (case names s p of
            None \<Rightarrow> (Inl (PathError ENOENT p), s)
          | Some i \<Rightarrow>
              (Inr (), s\<lparr>names := (names s)(p := None),
                          trace := trace s @ [EvRemove p]\<rparr>)))"


subsection \<open>The control configuration\<close>

text \<open>
  \<open>config.ControlRuntime\<close> is a struct of path fields. It is modelled as a function from
  the field name to the path, so \<open>runtime.ClientCA\<close> reads \<open>Runtime config ClientCA\<close>.
\<close>

datatype rtfile =
    ClientCA | ClientCAKey | ServerCA | ServerCAKey
  | RequestHeaderCA | RequestHeaderCAKey | IPSECKey
  | ServiceKey | PasswdFile | NodePasswdFile
  | SigningClientCA | SigningServerCA | ServiceCurrentKey
  | KubeConfigAdmin | KubeConfigSupervisor | KubeConfigController
  | KubeConfigScheduler | KubeConfigAPIServer | KubeConfigCloudController
  | ClientAdminCert | ClientAdminKey | ClientSupervisorCert | ClientSupervisorKey
  | ClientControllerCert | ClientControllerKey
  | ClientCloudControllerCert | ClientCloudControllerKey
  | ClientSchedulerCert | ClientSchedulerKey
  | ClientKubeAPICert | ClientKubeAPIKey
  | ClientKubeProxyCert | ClientKubeProxyKey
  | ClientK3sControllerCert | ClientK3sControllerKey
  | ServingKubeAPICert | ServingKubeAPIKey
  | ServingKubeSchedulerCert | ServingKubeSchedulerKey
  | ServingKubeControllerCert | ServingKubeControllerKey
  | ClientKubeletKey | ServingKubeletKey
  | EgressSelectorConfig | CloudControllerConfig
  | ClientAuthProxyCert | ClientAuthProxyKey
  | ETCDServerCA | ETCDServerCAKey | ETCDPeerCA | ETCDPeerCAKey
  | ServerETCDCert | ServerETCDKey
  | PeerServerClientETCDCert | PeerServerClientETCDKey
  | ClientETCDCert | ClientETCDKey
  | EncryptionConfig | EncryptionHash

record Control =
  DataDir :: string
  Token :: string
  AgentToken :: string
  SANs :: "string list"
  ClusterDomain :: string
  DisableETCD :: bool
  EncryptSecrets :: bool
  EncryptProvider :: string
  EgressSelectorMode :: string
  SupervisorPort :: nat
  APIServerPort :: nat
  DisableServiceLB :: bool
  ServiceLBNamespace :: string
  Rootless :: bool
  DisableCCM :: bool
  SystemDefaultRegistry :: string
  Runtime :: "rtfile \<Rightarrow> path"

text \<open>
  What the package takes from code that is not part of it: constants of other packages of
  the repository (\<open>version.Program\<close>, \<open>config.CertificateRenewDays\<close>, the provider names
  and key size of \<open>secretsencrypt\<close>, the defaults of \<open>cloudprovider\<close>, the egress mode
  name), the address helpers of \<open>config.Control\<close>, \<open>clientaccess.ParseUsernamePassword\<close>,
  and library functions whose values the code only passes on (\<open>net.ParseIP\<close> followed by
  \<open>String\<close>, \<open>sha256.Sum256\<close>, base64, the bytes of a structured file as text, the
  lifetimes the certificate library gives a leaf and a CA). They are parameters: every
  theorem holds for all of them.
\<close>

record ext =
  Program :: string
  CertificateRenewDays :: nat
  AESCBCProvider :: string
  SecretBoxProvider :: string
  KeySize :: nat
  EgressSelectorModeDisabled :: string
  DefaultLBPriorityClassName :: string
  DefaultLBImage :: string
  Loopback :: "Control \<Rightarrow> bool \<Rightarrow> string"
  BindAddressOrLoopback :: "Control \<Rightarrow> bool \<Rightarrow> bool \<Rightarrow> string"
  ParseUsernamePassword :: "string \<Rightarrow> (string \<times> string) option"
  ParseIP :: "string \<Rightarrow> string option"
  Sum256 :: "fileData \<Rightarrow> string"
  StdBase64 :: "string \<Rightarrow> string"
  pem_text :: "fileData \<Rightarrow> string"
  leafValidity :: nat
  caValidity :: nat

subsection \<open>Paths\<close>

text \<open>\<open>filepath.Join\<close> skips empty elements and puts a separator between the others. The
  final \<open>Clean\<close> is the identity on the paths built here when the data directory is a
  clean path, and is left out.\<close>

fun join_sep :: "string list \<Rightarrow> string" where
  "join_sep [] = []"
| "join_sep [x] = x"
| "join_sep (x # y # ys) = x @ ''/'' @ join_sep (y # ys)"

definition Join :: "string list \<Rightarrow> string" where
  "Join elems = join_sep (filter (\<lambda>e. e \<noteq> []) elems)"

definition CreateRuntimeCertFiles :: "ext \<Rightarrow> Control \<Rightarrow> Control" where
  "CreateRuntimeCertFiles X config = config\<lparr>Runtime := (\<lambda>f. case f of
      ClientCA \<Rightarrow> Join [DataDir config, ''tls'', ''client-ca.crt'']
    | ClientCAKey \<Rightarrow> Join [DataDir config, ''tls'', ''client-ca.key'']
    | ServerCA \<Rightarrow> Join [DataDir config, ''tls'', ''server-ca.crt'']
    | ServerCAKey \<Rightarrow> Join [DataDir config, ''tls'', ''server-ca.key'']
    | RequestHeaderCA \<Rightarrow> Join [DataDir config, ''tls'', ''request-header-ca.crt'']
    | RequestHeaderCAKey \<Rightarrow> Join [DataDir config, ''tls'', ''request-header-ca.key'']
    | IPSECKey \<Rightarrow> Join [DataDir config, ''cred'', ''ipsec.psk'']
    | ServiceKey \<Rightarrow> Join [DataDir config, ''tls'', ''service.key'']
    | PasswdFile \<Rightarrow> Join [DataDir config, ''cred'', ''passwd'']
    | NodePasswdFile \<Rightarrow> Join [DataDir config, ''cred'', ''node-passwd'']
    | SigningClientCA \<Rightarrow> Join [DataDir config, ''tls'', ''client-ca.nochain.crt'']
    | SigningServerCA \<Rightarrow> Join [DataDir config, ''tls'', ''server-ca.nochain.crt'']
    | ServiceCurrentKey \<Rightarrow> Join [DataDir config, ''tls'', ''service.current.key'']
    | KubeConfigAdmin \<Rightarrow> Join [DataDir config, ''cred'', ''admin.kubeconfig'']
    | KubeConfigSupervisor \<Rightarrow> Join [DataDir config, ''cred'', ''supervisor.kubeconfig'']
    | KubeConfigController \<Rightarrow> Join [DataDir config, ''cred'', ''controller.kubeconfig'']
    | KubeConfigScheduler \<Rightarrow> Join [DataDir config, ''cred'', ''scheduler.kubeconfig'']
    | KubeConfigAPIServer \<Rightarrow> Join [DataDir config, ''cred'', ''api-server.kubeconfig'']
    | KubeConfigCloudController \<Rightarrow>
        Join [DataDir config, ''cred'', ''cloud-controller.kubeconfig'']
    | ClientAdminCert \<Rightarrow> Join [DataDir config, ''tls'', ''client-admin.crt'']
    | ClientAdminKey \<Rightarrow> Join [DataDir config, ''tls'', ''client-admin.key'']
    | ClientSupervisorCert \<Rightarrow> Join [DataDir config, ''tls'', ''client-supervisor.crt'']
    | ClientSupervisorKey \<Rightarrow> Join [DataDir config, ''tls'', ''client-supervisor.key'']
    | ClientControllerCert \<Rightarrow> Join [DataDir config, ''tls'', ''client-controller.crt'']
    | ClientControllerKey \<Rightarrow> Join [DataDir config, ''tls'', ''client-controller.key'']
    | ClientCloudControllerCert \<Rightarrow>
        Join [DataDir config, ''tls'', ''client-'' @ Program X @ ''-cloud-controller.crt'']
    | ClientCloudControllerKey \<Rightarrow>
        Join [DataDir config, ''tls'', ''client-'' @ Program X @ ''-cloud-controller.key'']
    | ClientSchedulerCert \<Rightarrow> Join [DataDir config, ''tls'', ''client-scheduler.crt'']
    | ClientSchedulerKey \<Rightarrow> Join [DataDir config, ''tls'', ''client-scheduler.key'']
    | ClientKubeAPICert \<Rightarrow> Join [DataDir config, ''tls'', ''client-kube-apiserver.crt'']
    | ClientKubeAPIKey \<Rightarrow> Join [DataDir config, ''tls'', ''client-kube-apiserver.key'']
    | ClientKubeProxyCert \<Rightarrow> Join [DataDir config, ''tls'', ''client-kube-proxy.crt'']
    | ClientKubeProxyKey \<Rightarrow> Join [DataDir config, ''tls'', ''client-kube-proxy.key'']
    | ClientK3sControllerCert \<Rightarrow>
        Join [DataDir config, ''tls'', ''client-'' @ Program X @ ''-controller.crt'']
    | ClientK3sControllerKey \<Rightarrow>
        Join [DataDir config, ''tls'', ''client-'' @ Program X @ ''-controller.key'']
    | ServingKubeAPICert \<Rightarrow> Join [DataDir config, ''tls'', ''serving-kube-apiserver.crt'']
    | ServingKubeAPIKey \<Rightarrow> Join [DataDir config, ''tls'', ''serving-kube-apiserver.key'']
    | ServingKubeSchedulerCert \<Rightarrow>
        Join [DataDir config, ''tls'', ''kube-scheduler'', ''kube-scheduler.crt'']
    | ServingKubeSchedulerKey \<Rightarrow>
        Join [DataDir config, ''tls'', ''kube-scheduler'', ''kube-scheduler.key'']
    | ServingKubeControllerCert \<Rightarrow>
        Join [DataDir config, ''tls'', ''kube-controller-manager'',
              ''kube-controller-manager.crt'']
    | ServingKubeControllerKey \<Rightarrow>
        Join [DataDir config, ''tls'', ''kube-controller-manager'',
              ''kube-controller-manager.key'']
    | ClientKubeletKey \<Rightarrow> Join [DataDir config, ''tls'', ''client-kubelet.key'']
    | ServingKubeletKey \<Rightarrow> Join [DataDir config, ''tls'', ''serving-kubelet.key'']
    | EgressSelectorConfig \<Rightarrow>
        Join [DataDir config, ''etc'', ''egress-selector-config.yaml'']
    | CloudControllerConfig \<Rightarrow> Join [DataDir config, ''etc'', ''cloud-config.yaml'']
    | ClientAuthProxyCert \<Rightarrow> Join [DataDir config, ''tls'', ''client-auth-proxy.crt'']
    | ClientAuthProxyKey \<Rightarrow> Join [DataDir config, ''tls'', ''client-auth-proxy.key'']
    | ETCDServerCA \<Rightarrow> Join [DataDir config, ''tls'', ''etcd'', ''server-ca.crt'']
    | ETCDServerCAKey \<Rightarrow> Join [DataDir config, ''tls'', ''etcd'', ''server-ca.key'']
    | ETCDPeerCA \<Rightarrow> Join [DataDir config, ''tls'', ''etcd'', ''peer-ca.crt'']
    | ETCDPeerCAKey \<Rightarrow> Join [DataDir config, ''tls'', ''etcd'', ''peer-ca.key'']
    | ServerETCDCert \<Rightarrow> Join [DataDir config, ''tls'', ''etcd'', ''server-client.crt'']
    | ServerETCDKey \<Rightarrow> Join [DataDir config, ''tls'', ''etcd'', ''server-client.key'']
    | PeerServerClientETCDCert \<Rightarrow>
        Join [DataDir config, ''tls'', ''etcd'', ''peer-server-client.crt'']
    | PeerServerClientETCDKey \<Rightarrow>
        Join [DataDir config, ''tls'', ''etcd'', ''peer-server-client.key'']
    | ClientETCDCert \<Rightarrow> Join [DataDir config, ''tls'', ''etcd'', ''client.crt'']
    | ClientETCDKey \<Rightarrow> Join [DataDir config, ''tls'', ''etcd'', ''client.key'']
    | EncryptionConfig \<Rightarrow>
        (if EncryptSecrets config then Join [DataDir config, ''cred'', ''encryption-config.json'']
         else Runtime config EncryptionConfig)
    | EncryptionHash \<Rightarrow>
        (if EncryptSecrets config then Join [DataDir config, ''cred'', ''encryption-state.json'']
         else Runtime config EncryptionHash))\<rparr>"


section \<open>Contracts of the libraries the package calls\<close>

text \<open>
  The certificate helpers of \<open>certutil\<close> and \<open>keyutil\<close> are library code. Each is modelled
  by its documented contract on the parsed file content.
\<close>

text \<open>\<open>certutil.CertsFromFile\<close>: the certificates of a PEM file; an error when the file
  cannot be read or holds no certificate.\<close>

definition CertsFromFile :: "state \<Rightarrow> path \<Rightarrow> error + cert list" where
  "CertsFromFile s file =
     (case os_ReadFile s file of
        Inl e \<Rightarrow> Inl e
      | Inr d \<Rightarrow>
          (case d of
             PEMCerts cs \<Rightarrow> if cs = [] then Inl (InvalidCertData file) else Inr cs
           | _ \<Rightarrow> Inl (InvalidCertData file)))"

text \<open>\<open>certutil.ParsePrivateKeyPEM\<close>: the first private key of the PEM data.\<close>

definition ParsePrivateKeyPEM :: "fileData \<Rightarrow> error + privkey" where
  "ParsePrivateKeyPEM d =
     (case d of
        PEMKeys ks \<Rightarrow> (case ks of [] \<Rightarrow> Inl InvalidKeyData | k # rest \<Rightarrow> Inr k)
      | _ \<Rightarrow> Inl InvalidKeyData)"

definition PrivateKeyFromFile :: "state \<Rightarrow> path \<Rightarrow> error + privkey" where
  "PrivateKeyFromFile s file =
     (case os_ReadFile s file of Inl e \<Rightarrow> Inl e | Inr d \<Rightarrow> ParsePrivateKeyPEM d)"

definition verifyKeyData :: "fileData \<Rightarrow> bool" where
  "verifyKeyData d = (case ParsePrivateKeyPEM d of Inl e \<Rightarrow> False | Inr k \<Rightarrow> True)"

definition EncodeCertPEM :: "cert \<Rightarrow> fileData" where
  "EncodeCertPEM c = PEMCerts [c]"

definition EncodePrivateKeyPEM :: "privkey \<Rightarrow> fileData" where
  "EncodePrivateKeyPEM k = PEMKeys [k]"

definition MarshalPrivateKeyToPEM :: "privkey \<Rightarrow> error + fileData" where
  "MarshalPrivateKeyToPEM k = Inr (PEMKeys [k])"

text \<open>\<open>certutil.WriteCert\<close> and \<open>certutil.WriteKey\<close> make the directory and call
  \<open>os.WriteFile\<close>; directories are not part of the model.\<close>

definition WriteCert :: "path \<Rightarrow> fileData \<Rightarrow> unit M" where
  "WriteCert certPath d = os_WriteFile certPath d"

definition WriteKey :: "path \<Rightarrow> fileData \<Rightarrow> unit M" where
  "WriteKey keyPath d = os_WriteFile keyPath d"

text \<open>\<open>rand.Read\<close> of \<open>n\<close> bytes: the next \<open>n\<close> bytes of the tape.\<close>

definition rand_Read :: "nat \<Rightarrow> string M" where
  "rand_Read n = (\<lambda>s.
     if entropy_ok s
     then (Inr (map (tape s) [rpos s ..< rpos s + n]), s\<lparr>rpos := rpos s + n\<rparr>)
     else (Inl EntropyError, s))"

text \<open>A new private key is its random key material; the key identifier a certificate
  carries for a key is that material.\<close>

definition NewPrivateKey :: "privkey M" where
  "NewPrivateKey = bind (rand_Read 32) (\<lambda>b. ret (PrivKey b))"

definition keyId :: "privkey \<Rightarrow> string" where
  "keyId k = (case k of PrivKey m \<Rightarrow> m)"

text \<open>\<open>certutil.LoadOrGenerateKeyFile\<close>: unless forced, the data of an existing valid key
  file; a missing file (or \<open>force\<close>) gives a new key written to the path; any other read
  failure or a corrupt file is an error.\<close>

definition LoadOrGenerateKeyFile :: "path \<Rightarrow> bool \<Rightarrow> (fileData \<times> bool) M" where
  "LoadOrGenerateKeyFile keyPath force = (\<lambda>s.
     let generate =
           bind NewPrivateKey (\<lambda>k.
           bind (WriteKey keyPath (EncodePrivateKeyPEM k)) (\<lambda>u.
           ret (EncodePrivateKeyPEM k, True)))
     in if \<not> force then
          (case os_ReadFile s keyPath of
             Inr loadedData \<Rightarrow>
               if verifyKeyData loadedData then (Inr (loadedData, False), s)
               else (Inl (KeyLoadError keyPath), s)
           | Inl e \<Rightarrow>
               if IsNotExist e then generate s else (Inl (KeyLoadError keyPath), s))
        else generate s)"

text \<open>\<open>certutil.NewSelfSignedCACert\<close> and \<open>certutil.NewSignedCert\<close>: the certificate takes
  its subject and names from the configuration, its subject key identifier from its key
  and its authority key identifier from the certificate that signs it.\<close>

definition NewSelfSignedCACert :: "ext \<Rightarrow> nat \<Rightarrow> CertConfig \<Rightarrow> privkey \<Rightarrow> error + cert" where
  "NewSelfSignedCACert X t cfg key =
     Inr \<lparr>CommonName = cfgCommonName cfg, Organization = cfgOrganization cfg,
          DNSNames = [], IPAddresses = [],
          SubjectKeyId = keyId key, AuthorityKeyId = keyId key,
          NotAfter = t + caValidity X, ExtKeyUsages = [], IsCA = True\<rparr>"

definition NewSignedCert ::
  "ext \<Rightarrow> nat \<Rightarrow> CertConfig \<Rightarrow> privkey \<Rightarrow> cert \<Rightarrow> privkey \<Rightarrow> error + cert" where
  "NewSignedCert X t cfg key caCert caKey =
     (if cfgCommonName cfg = [] then Inl (CertError ''must specify a CommonName'')
      else if cfgUsages cfg = [] then Inl (CertError ''must specify at least one ExtKeyUsage'')
      else Inr \<lparr>CommonName = cfgCommonName cfg, Organization = cfgOrganization cfg,
                DNSNames = altDNSNames (cfgAltNames cfg),
                IPAddresses = altIPs (cfgAltNames cfg),
                SubjectKeyId = keyId key, AuthorityKeyId = SubjectKeyId caCert,
                NotAfter = t + leafValidity X, ExtKeyUsages = cfgUsages cfg,
                IsCA = False\<rparr>)"

text \<open>\<open>certutil.IsCertExpired\<close>: true when the certificate ends within \<open>days\<close> days.\<close>

definition IsCertExpired :: "nat \<Rightarrow> cert \<Rightarrow> nat \<Rightarrow> bool" where
  "IsCertExpired t c days = (int (NotAfter c) - int t \<le> int days * 86400)"

section \<open>The package\<close>

subsection \<open>exists, expired, fieldsChanged\<close>

fun exists :: "state \<Rightarrow> path list \<Rightarrow> bool" where
  "exists s [] = True"
| "exists s (file # files) =
     (case os_Stat s file of Inl err \<Rightarrow> False | Inr info \<Rightarrow> exists s files)"

text \<open>\<open>certificates[0]\<close> on an empty slice is a run-time panic; it is the error
  \<open>IndexOutOfRange\<close>.\<close>

definition expired :: "ext \<Rightarrow> state \<Rightarrow> path \<Rightarrow> error + bool" where
  "expired X s certFile =
     (case CertsFromFile s certFile of
        Inl err \<Rightarrow> Inr False
      | Inr certificates \<Rightarrow>
          (case certificates of
             [] \<Rightarrow> Inl IndexOutOfRange
           | c # rest \<Rightarrow> Inr (IsCertExpired (now s) c (CertificateRenewDays X))))"

definition sans_or_empty :: "AltNames option \<Rightarrow> AltNames" where
  "sans_or_empty sans =
     (case sans of None \<Rightarrow> \<lparr>altDNSNames = [], altIPs = []\<rparr> | Some a \<Rightarrow> a)"

definition fieldsChanged ::
  "state \<Rightarrow> path \<Rightarrow> string \<Rightarrow> string list \<Rightarrow> AltNames option \<Rightarrow> path \<Rightarrow> bool" where
  "fieldsChanged s certFile commonName organization sans caCertFile =
     (case CertsFromFile s certFile of
        Inl err \<Rightarrow> False
      | Inr certificates \<Rightarrow>
          (case certificates of
             [] \<Rightarrow> False
           | c # rest \<Rightarrow>
               if CommonName c \<noteq> commonName then True
               else if set (Organization c) \<noteq> set organization then True
               else if \<not> list_all (\<lambda>d. d \<in> set (DNSNames c)) (altDNSNames (sans_or_empty sans))
                 then True
               else if list_ex (\<lambda>ip. ip \<notin> set (IPAddresses c)) (altIPs (sans_or_empty sans))
                 then True
               else
                 (case CertsFromFile s caCertFile of
                    Inl err \<Rightarrow> False
                  | Inr caCertificates \<Rightarrow>
                      (case caCertificates of
                         [] \<Rightarrow> False
                       | ca # rest' \<Rightarrow> AuthorityKeyId c \<noteq> SubjectKeyId ca))))"


subsection \<open>Text helpers of the standard library\<close>

fun dec :: "nat \<Rightarrow> string" where
  "dec n = (if n < 10 then [char_of (48 + n)] else dec (n div 10) @ [char_of (48 + n mod 10)])"

declare dec.simps [simp del]

definition hex_digit :: "nat \<Rightarrow> char" where
  "hex_digit n = (if n < 10 then char_of (48 + n) else char_of (87 + n))"

definition hex_EncodeToString :: "string \<Rightarrow> string" where
  "hex_EncodeToString bs =
     concat (map (\<lambda>c. [hex_digit (of_char c div 16), hex_digit (of_char c mod 16)]) bs)"

definition is_space :: "char \<Rightarrow> bool" where
  "is_space c = (c \<in> set [CHR '' '', CHR 0x09, CHR 0x0A, CHR 0x0B, CHR 0x0C, CHR 0x0D])"

definition TrimSpace :: "string \<Rightarrow> string" where
  "TrimSpace t = rev (dropWhile is_space (rev (dropWhile is_space t)))"

definition data_text :: "ext \<Rightarrow> fileData \<Rightarrow> string" where
  "data_text X d = (case d of Bytes b \<Rightarrow> b | _ \<Rightarrow> pem_text X d)"

subsection \<open>Code of the repository outside the package\<close>

text \<open>
  Modelled from the spec: \<open>util.Random\<close>, \<open>util.AtomicWrite\<close>, \<open>util.EncodeCertsPEM\<close> and
  package \<open>passwd\<close> are code of the repository that is not among the sources. The spec
  says: a cryptographically random token is generated (taken here as the hex text of
  \<open>n\<close> random bytes); a file is written atomically, by writing to a temporary location
  and renaming into place; the certificate is written concatenated with the CA chain; the
  credential table is a flat table from user name to group and secret, \<open>ensureUser\<close> inserts
  the name if absent or updates its group and secret, and the table is serialised back to
  its file. A table that has no file yet is empty.
\<close>

definition util_Random :: "nat \<Rightarrow> string M" where
  "util_Random n = bind (rand_Read n) (\<lambda>token. ret (hex_EncodeToString token))"

definition AtomicWrite :: "path \<Rightarrow> fileData \<Rightarrow> unit M" where
  "AtomicWrite p d = (\<lambda>s.
     case fault s OpWrite p of
       Some e \<Rightarrow> (Inl (PathError e p), s)
     | None \<Rightarrow>
         (Inr (), s\<lparr>names := (names s)(p \<mapsto> next_ino s),
                     inodes := (inodes s)(next_ino s := d),
                     next_ino := Suc (next_ino s),
                     trace := trace s @ [EvWrite p]\<rparr>))"

definition EncodeCertsPEM :: "cert \<Rightarrow> cert list \<Rightarrow> fileData" where
  "EncodeCertsPEM c caCerts = PEMCerts (c # caCerts)"

definition passwd_Read :: "state \<Rightarrow> path \<Rightarrow> error + passwd_table" where
  "passwd_Read s file =
     (case os_ReadFile s file of
        Inl e \<Rightarrow> if IsNotExist e then Inr [] else Inl e
      | Inr d \<Rightarrow>
          (case d of
             PasswdCSV t \<Rightarrow> Inr t
           | _ \<Rightarrow> Inl (OtherError ''invalid credential table'')))"

definition Pass :: "passwd_table \<Rightarrow> string \<Rightarrow> string \<times> bool" where
  "Pass p name = (case map_of p name of None \<Rightarrow> ([], False) | Some e \<Rightarrow> (snd e, True))"

definition EnsureUser :: "passwd_table \<Rightarrow> string \<Rightarrow> string \<Rightarrow> string \<Rightarrow> error + passwd_table" where
  "EnsureUser p name role passwd = Inr (AList.update name (role, passwd) p)"

definition passwd_Write :: "passwd_table \<Rightarrow> path \<Rightarrow> unit M" where
  "passwd_Write p passwdFile = AtomicWrite passwdFile (PasswdCSV p)"

subsection \<open>Certificate authorities and leaf certificates\<close>

definition createSigningCertKey :: "ext \<Rightarrow> string \<Rightarrow> path \<Rightarrow> path \<Rightarrow> bool M" where
  "createSigningCertKey X prefix certFile keyFile = (\<lambda>s.
     if exists s [certFile, keyFile] then (Inr False, s)
     else
       bind (LoadOrGenerateKeyFile keyFile False) (\<lambda>(caKeyBytes, generated).
       bind (liftE (ParsePrivateKeyPEM caKeyBytes)) (\<lambda>caKey.
       bind (reading (\<lambda>s'. NewSelfSignedCACert X (now s')
               \<lparr>cfgCommonName = prefix @ ''-ca@'' @ dec (now s'), cfgOrganization = [],
                cfgAltNames = \<lparr>altDNSNames = [], altIPs = []\<rparr>, cfgUsages = []\<rparr> caKey))
         (\<lambda>cert.
       bind (WriteCert certFile (EncodeCertPEM cert)) (\<lambda>u.
       ret True)))) s)"

definition createClientCertKey ::
  "ext \<Rightarrow> bool \<Rightarrow> string \<Rightarrow> string list \<Rightarrow> AltNames option \<Rightarrow> ExtKeyUsage list \<Rightarrow>
   path \<Rightarrow> path \<Rightarrow> path \<Rightarrow> path \<Rightarrow> bool M" where
  "createClientCertKey X regen commonName organization altNames extKeyUsage
     caCertFile caKeyFile certFile keyFile = (\<lambda>s.
     case (if regen then Inr True
           else (case expired X s certFile of
                   Inl e \<Rightarrow> Inl e
                 | Inr ex \<Rightarrow>
                     if ex then Inr True
                     else Inr (fieldsChanged s certFile commonName organization altNames
                                 caCertFile))) of
       Inl e \<Rightarrow> (Inl e, s)
     | Inr regen' \<Rightarrow>
         if \<not> regen' \<and> exists s [certFile, keyFile] then (Inr False, s)
         else
           bind (reading (\<lambda>s'. PrivateKeyFromFile s' caKeyFile)) (\<lambda>caKey.
           bind (reading (\<lambda>s'. CertsFromFile s' caCertFile)) (\<lambda>caCerts.
           bind (LoadOrGenerateKeyFile keyFile regen') (\<lambda>(keyBytes, generated).
           bind (liftE (ParsePrivateKeyPEM keyBytes)) (\<lambda>key.
           bind (liftE (case caCerts of [] \<Rightarrow> Inl IndexOutOfRange | ca # rest \<Rightarrow> Inr ca))
             (\<lambda>ca.
           bind (reading (\<lambda>s'. NewSignedCert X (now s')
                   \<lparr>cfgCommonName = commonName, cfgOrganization = organization,
                    cfgAltNames = sans_or_empty altNames, cfgUsages = extKeyUsage\<rparr>
                   key ca caKey)) (\<lambda>cert.
           bind (WriteCert certFile (EncodeCertsPEM cert caCerts)) (\<lambda>u.
           ret True))))))) s)"

definition getSigningCertFactory ::
  "ext \<Rightarrow> bool \<Rightarrow> AltNames option \<Rightarrow> ExtKeyUsage list \<Rightarrow> path \<Rightarrow> path \<Rightarrow>
   (string \<Rightarrow> string list \<Rightarrow> path \<Rightarrow> path \<Rightarrow> bool M)" where
  "getSigningCertFactory X regen altNames extKeyUsage caCertFile caKeyFile =
     (\<lambda>commonName organization certFile keyFile.
        createClientCertKey X regen commonName organization altNames extKeyUsage
          caCertFile caKeyFile certFile keyFile)"

subsection \<open>Kubeconfig\<close>

definition text_lines :: "string list \<Rightarrow> string" where
  "text_lines ls = concat (map (\<lambda>l. l @ [CHR 0x0A]) ls)"

definition kubeconfigTemplate :: "string \<Rightarrow> string \<Rightarrow> string \<Rightarrow> string \<Rightarrow> string" where
  "kubeconfigTemplate URL CACert ClientCert ClientKey = text_lines
     [''apiVersion: v1'',
      ''clusters:'',
      ''- cluster:'',
      ''    server: '' @ URL,
      ''    certificate-authority: '' @ CACert,
      ''  name: local'',
      ''contexts:'',
      ''- context:'',
      ''    cluster: local'',
      ''    namespace: default'',
      ''    user: user'',
      ''  name: Default'',
      ''current-context: Default'',
      ''kind: Config'',
      ''preferences: {}'',
      ''users:'',
      ''- name: user'',
      ''  user:'',
      ''    client-certificate: '' @ ClientCert,
      ''    client-key: '' @ ClientKey]"

definition KubeConfig :: "path \<Rightarrow> string \<Rightarrow> string \<Rightarrow> string \<Rightarrow> string \<Rightarrow> unit M" where
  "KubeConfig dest url caCert clientCert clientKey =
     os_WriteFile dest (Bytes (kubeconfigTemplate url caCert clientCert clientKey))"

text \<open>Names of \<open>k8s.io/apiserver/pkg/authentication/user\<close>.\<close>

definition SystemPrivilegedGroup :: string where
  "SystemPrivilegedGroup = ''system:masters''"

definition KubeControllerManager :: string where
  "KubeControllerManager = ''system:kube-controller-manager''"

definition KubeScheduler :: string where
  "KubeScheduler = ''system:kube-scheduler''"

definition APIServerUser :: string where
  "APIServerUser = ''system:apiserver''"

definition RequestHeaderCN :: string where
  "RequestHeaderCN = ''system:auth-proxy''"

definition ipsecTokenSize :: nat where
  "ipsecTokenSize = 48"


subsection \<open>Client certificates\<close>

definition genClientCerts :: "ext \<Rightarrow> Control \<Rightarrow> unit M" where
  "genClientCerts X config =
     (let runtime = Runtime config in
      bind (createSigningCertKey X (Program X @ ''-client'') (runtime ClientCA)
              (runtime ClientCAKey)) (\<lambda>regen.
      bind (reading (\<lambda>s. CertsFromFile s (runtime ClientCA))) (\<lambda>certs.
      bind (liftE (case certs of [] \<Rightarrow> Inl IndexOutOfRange | c # rest \<Rightarrow> Inr c)) (\<lambda>c0.
      bind (WriteCert (runtime SigningClientCA) (EncodeCertPEM c0)) (\<lambda>u.
      (let factory = getSigningCertFactory X regen None [ExtKeyUsageClientAuth]
                       (runtime ClientCA) (runtime ClientCAKey);
           apiEndpoint = ''https://'' @ Loopback X config True @ '':'' @
                         dec (APIServerPort config) in
       bind (factory ''system:admin'' [SystemPrivilegedGroup]
               (runtime ClientAdminCert) (runtime ClientAdminKey)) (\<lambda>certGen.
       bind (if certGen
             then KubeConfig (runtime KubeConfigAdmin) apiEndpoint (runtime ServerCA)
                    (runtime ClientAdminCert) (runtime ClientAdminKey)
             else ret ()) (\<lambda>u.
       bind (factory (''system:'' @ Program X @ ''-supervisor'') [SystemPrivilegedGroup]
               (runtime ClientSupervisorCert) (runtime ClientSupervisorKey)) (\<lambda>certGen.
       bind (if certGen
             then KubeConfig (runtime KubeConfigSupervisor) apiEndpoint (runtime ServerCA)
                    (runtime ClientSupervisorCert) (runtime ClientSupervisorKey)
             else ret ()) (\<lambda>u.
       bind (factory KubeControllerManager []
               (runtime ClientControllerCert) (runtime ClientControllerKey)) (\<lambda>certGen.
       bind (if certGen
             then KubeConfig (runtime KubeConfigController) apiEndpoint (runtime ServerCA)
                    (runtime ClientControllerCert) (runtime ClientControllerKey)
             else ret ()) (\<lambda>u.
       bind (factory KubeScheduler []
               (runtime ClientSchedulerCert) (runtime ClientSchedulerKey)) (\<lambda>certGen.
       bind (if certGen
             then KubeConfig (runtime KubeConfigScheduler) apiEndpoint (runtime ServerCA)
                    (runtime ClientSchedulerCert) (runtime ClientSchedulerKey)
             else ret ()) (\<lambda>u.
       bind (factory APIServerUser [SystemPrivilegedGroup]
               (runtime ClientKubeAPICert) (runtime ClientKubeAPIKey)) (\<lambda>certGen.
       bind (if certGen
             then KubeConfig (runtime KubeConfigAPIServer) apiEndpoint (runtime ServerCA)
                    (runtime ClientKubeAPICert) (runtime ClientKubeAPIKey)
             else ret ()) (\<lambda>u.
       bind (LoadOrGenerateKeyFile (runtime ClientKubeProxyKey) regen) (\<lambda>k.
       bind (LoadOrGenerateKeyFile (runtime ClientK3sControllerKey) regen) (\<lambda>k.
       bind (LoadOrGenerateKeyFile (runtime ClientKubeletKey) regen) (\<lambda>k.
       bind (factory (Program X @ ''-cloud-controller-manager'') []
               (runtime ClientCloudControllerCert) (runtime ClientCloudControllerKey))
         (\<lambda>certGen.
       bind (if certGen
             then KubeConfig (runtime KubeConfigCloudController) apiEndpoint
                    (runtime ServerCA) (runtime ClientCloudControllerCert)
                    (runtime ClientCloudControllerKey)
             else ret ()) (\<lambda>u.
       ret ())))))))))))))))))))))"

subsection \<open>Server, etcd and request-header certificates\<close>

definition TokenCA :: "Control \<Rightarrow> path" where
  "TokenCA config = Join [DataDir config, ''tls'', ''token-ca.crt'']"

definition TokenCAKey :: "Control \<Rightarrow> path" where
  "TokenCAKey config = Join [DataDir config, ''tls'', ''token-ca.key'']"

definition createServerSigningCertKey :: "ext \<Rightarrow> Control \<Rightarrow> bool M" where
  "createServerSigningCertKey X config = (\<lambda>s.
     let runtime = Runtime config in
     if exists s [TokenCA config, TokenCAKey config] \<and> \<not> exists s [runtime ServerCA]
        \<and> \<not> exists s [runtime ServerCAKey]
     then
       bind (os_Link (TokenCA config) (runtime ServerCA)) (\<lambda>u.
       bind (os_Link (TokenCAKey config) (runtime ServerCAKey)) (\<lambda>u.
       ret True)) s
     else
       bind (createSigningCertKey X (Program X @ ''-server'') (runtime ServerCA)
               (runtime ServerCAKey)) (\<lambda>regen.
       bind (reading (\<lambda>s'. CertsFromFile s' (runtime ServerCA))) (\<lambda>certs.
       bind (liftE (case certs of [] \<Rightarrow> Inl IndexOutOfRange | c # rest \<Rightarrow> Inr c)) (\<lambda>c0.
       bind (WriteCert (runtime SigningServerCA) (EncodeCertPEM c0)) (\<lambda>u.
       ret regen)))) s)"

fun addSANs :: "ext \<Rightarrow> AltNames \<Rightarrow> string list \<Rightarrow> AltNames" where
  "addSANs X altNames [] = altNames"
| "addSANs X altNames (san # sans) =
     (case ParseIP X san of
        None \<Rightarrow> addSANs X (altNames\<lparr>altDNSNames := altDNSNames altNames @ [san]\<rparr>) sans
      | Some ip \<Rightarrow> addSANs X (altNames\<lparr>altIPs := altIPs altNames @ [ip]\<rparr>) sans)"

definition genServerCerts :: "ext \<Rightarrow> Control \<Rightarrow> unit M" where
  "genServerCerts X config =
     (let runtime = Runtime config in
      bind (createServerSigningCertKey X config) (\<lambda>regen.
      (let altNames = addSANs X
             \<lparr>altDNSNames = [''kubernetes'', ''kubernetes.default'', ''kubernetes.default.svc'',
                             ''kubernetes.default.svc.'' @ ClusterDomain config],
              altIPs = []\<rparr> (SANs config) in
       bind (createClientCertKey X regen ''kube-apiserver'' [] (Some altNames)
               [ExtKeyUsageServerAuth] (runtime ServerCA) (runtime ServerCAKey)
               (runtime ServingKubeAPICert) (runtime ServingKubeAPIKey)) (\<lambda>b.
       bind (LoadOrGenerateKeyFile (runtime ServingKubeletKey) regen) (\<lambda>k.
       (let altNames' = addSANs X \<lparr>altDNSNames = [], altIPs = []\<rparr>
                          [''localhost'', ''127.0.0.1'', ''::1''] in
        bind (createClientCertKey X regen ''kube-scheduler'' [] (Some altNames')
                [ExtKeyUsageServerAuth] (runtime ServerCA) (runtime ServerCAKey)
                (runtime ServingKubeSchedulerCert) (runtime ServingKubeSchedulerKey)) (\<lambda>b.
        bind (createClientCertKey X regen ''kube-controller-manager'' [] (Some altNames')
                [ExtKeyUsageServerAuth] (runtime ServerCA) (runtime ServerCAKey)
                (runtime ServingKubeControllerCert) (runtime ServingKubeControllerKey)) (\<lambda>b.
        ret ()))))))))"

definition genETCDCerts :: "ext \<Rightarrow> Control \<Rightarrow> unit M" where
  "genETCDCerts X config =
     (let runtime = Runtime config in
      bind (createSigningCertKey X ''etcd-server'' (runtime ETCDServerCA)
              (runtime ETCDServerCAKey)) (\<lambda>regen.
      (let altNames = addSANs X \<lparr>altDNSNames = [''kine.sock''], altIPs = []\<rparr> (SANs config) in
       bind (createClientCertKey X regen ''etcd-client'' [] None
               [ExtKeyUsageClientAuth] (runtime ETCDServerCA) (runtime ETCDServerCAKey)
               (runtime ClientETCDCert) (runtime ClientETCDKey)) (\<lambda>b.
       bind (createSigningCertKey X ''etcd-peer'' (runtime ETCDPeerCA)
               (runtime ETCDPeerCAKey)) (\<lambda>regen.
       bind (createClientCertKey X regen ''etcd-peer'' [] (Some altNames)
               [ExtKeyUsageServerAuth, ExtKeyUsageClientAuth]
               (runtime ETCDPeerCA) (runtime ETCDPeerCAKey)
               (runtime PeerServerClientETCDCert) (runtime PeerServerClientETCDKey)) (\<lambda>b.
       if DisableETCD config then ret ()
       else
         bind (createClientCertKey X regen ''etcd-server'' [] (Some altNames)
                 [ExtKeyUsageServerAuth, ExtKeyUsageClientAuth]
                 (runtime ETCDServerCA) (runtime ETCDServerCAKey)
                 (runtime ServerETCDCert) (runtime ServerETCDKey)) (\<lambda>b.
         ret ())))))))"

definition genRequestHeaderCerts :: "ext \<Rightarrow> Control \<Rightarrow> unit M" where
  "genRequestHeaderCerts X config =
     (let runtime = Runtime config in
      bind (createSigningCertKey X (Program X @ ''-request-header'')
              (runtime RequestHeaderCA) (runtime RequestHeaderCAKey)) (\<lambda>regen.
      bind (createClientCertKey X regen RequestHeaderCN [] None
              [ExtKeyUsageClientAuth] (runtime RequestHeaderCA) (runtime RequestHeaderCAKey)
              (runtime ClientAuthProxyCert) (runtime ClientAuthProxyKey)) (\<lambda>b.
      ret ())))"

definition genCerts :: "ext \<Rightarrow> Control \<Rightarrow> unit M" where
  "genCerts X config =
     bind (genClientCerts X config) (\<lambda>u.
     bind (genServerCerts X config) (\<lambda>u.
     bind (genRequestHeaderCerts X config) (\<lambda>u.
     genETCDCerts X config)))"


subsection \<open>Legacy cleanup and the service-account key\<close>

fun remove_each :: "path list \<Rightarrow> unit M" where
  "remove_each [] = ret ()"
| "remove_each (c # certs) = (\<lambda>s.
     case os_Remove c s of
       (Inl err, s') \<Rightarrow> if \<not> IsNotExist err then (Inl err, s') else remove_each certs s'
     | (Inr u, s') \<Rightarrow> remove_each certs s')"

definition cleanupLegacyCerts :: "Control \<Rightarrow> unit M" where
  "cleanupLegacyCerts config =
     (let legacyCerts = [Runtime config ClientKubeProxyCert,
                         Runtime config ClientK3sControllerCert]
      in remove_each legacyCerts)"

definition genServiceAccount :: "(rtfile \<Rightarrow> path) \<Rightarrow> unit M" where
  "genServiceAccount runtime =
     bind (\<lambda>s. case os_Stat s (runtime ServiceKey) of
                 Inl err \<Rightarrow>
                   if \<not> IsNotExist err then (Inl err, s)
                   else
                     bind NewPrivateKey (\<lambda>key.
                     WriteKey (runtime ServiceKey) (EncodePrivateKeyPEM key)) s
               | Inr info \<Rightarrow> (Inr (), s)) (\<lambda>u.
     bind (reading (\<lambda>s. PrivateKeyFromFile s (runtime ServiceKey))) (\<lambda>key.
     bind (liftE (MarshalPrivateKeyToPEM key)) (\<lambda>keyData.
     WriteKey (runtime ServiceCurrentKey) keyData)))"

subsection \<open>Credential table\<close>

definition migratePassword :: "ext \<Rightarrow> passwd_table \<Rightarrow> error + passwd_table" where
  "migratePassword X p =
     (let server = fst (Pass p ''server''); node = fst (Pass p ''node'') in
      if server = [] \<and> node \<noteq> [] then EnsureUser p ''server'' (Program X @ '':server'') node
      else Inr p)"

definition getServerPass :: "passwd_table \<Rightarrow> Control \<Rightarrow> string M" where
  "getServerPass p config =
     (let serverPass = Token config;
          serverPass = (if serverPass = [] then fst (Pass p ''server'') else serverPass)
      in if serverPass = [] then util_Random 16 else ret serverPass)"

definition getNodePass :: "ext \<Rightarrow> Control \<Rightarrow> string \<Rightarrow> string" where
  "getNodePass X config serverPass =
     (if AgentToken config = [] then
        (case ParseUsernamePassword X serverPass of
           Some (username, passwd) \<Rightarrow> passwd
         | None \<Rightarrow> serverPass)
      else AgentToken config)"

definition genUsers :: "ext \<Rightarrow> Control \<Rightarrow> unit M" where
  "genUsers X config =
     (let runtime = Runtime config in
      bind (reading (\<lambda>s. passwd_Read s (runtime PasswdFile))) (\<lambda>p.
      bind (liftE (migratePassword X p)) (\<lambda>p.
      bind (getServerPass p config) (\<lambda>serverPass.
      (let nodePass = getNodePass X config serverPass in
       bind (liftE (EnsureUser p ''node'' (Program X @ '':agent'') nodePass)) (\<lambda>p.
       bind (liftE (EnsureUser p ''server'' (Program X @ '':server'') serverPass)) (\<lambda>p.
       passwd_Write p (runtime PasswdFile))))))))"

definition readTokens :: "(rtfile \<Rightarrow> path) \<Rightarrow> unit M" where
  "readTokens runtime =
     bind (reading (\<lambda>s. passwd_Read s (runtime PasswdFile))) (\<lambda>tokens. (\<lambda>s.
       let s1 = (case Pass tokens ''node'' of
                   (nodeToken, ok) \<Rightarrow>
                     if ok then s\<lparr>rtAgentToken := ''node:'' @ nodeToken\<rparr> else s);
           s2 = (case Pass tokens ''server'' of
                   (serverToken, ok) \<Rightarrow>
                     if ok then s1\<lparr>rtServerToken := ''server:'' @ serverToken\<rparr> else s1)
       in (Inr (), s2)))"

subsection \<open>Pre-shared key, encryption configuration, derived configurations\<close>

definition genEncryptedNetworkInfo :: "ext \<Rightarrow> Control \<Rightarrow> unit M" where
  "genEncryptedNetworkInfo X controlConfig = (\<lambda>s.
     let runtime = Runtime controlConfig in
     if (case os_Stat s (runtime IPSECKey) of Inl err \<Rightarrow> False | Inr info \<Rightarrow> Size_pos info)
     then
       (case os_ReadFile s (runtime IPSECKey) of
          Inl err \<Rightarrow> (Inl err, s)
        | Inr psk \<Rightarrow> (Inr (), s\<lparr>IPSECPSK := TrimSpace (data_text X psk)\<rparr>))
     else
       bind (util_Random ipsecTokenSize) (\<lambda>psk.
       bind (\<lambda>s'. (Inr (), s'\<lparr>IPSECPSK := psk\<rparr>)) (\<lambda>u.
       os_WriteFile (runtime IPSECKey) (Bytes (psk @ [CHR 0x0A])))) s)"

definition hash_record :: "ext \<Rightarrow> fileData \<Rightarrow> fileData" where
  "hash_record X b = Bytes (''start-'' @ hex_EncodeToString (Sum256 X b))"

definition genEncryptionConfigAndState :: "ext \<Rightarrow> Control \<Rightarrow> unit M" where
  "genEncryptionConfigAndState X controlConfig = (\<lambda>s.
     let runtime = Runtime controlConfig in
     if \<not> EncryptSecrets controlConfig then (Inr (), s)
     else
       (case (if EncryptProvider controlConfig = AESCBCProvider X then Inr ''aescbckey''
              else if EncryptProvider controlConfig = SecretBoxProvider X
                then Inr ''secretboxkey''
              else Inl (UnsupportedKeyType (EncryptProvider controlConfig))) of
          Inl err \<Rightarrow> (Inl err, s)
        | Inr keyName' \<Rightarrow>
            if (case os_Stat s (runtime EncryptionConfig) of
                  Inl err \<Rightarrow> False | Inr info \<Rightarrow> Size_pos info)
            then
              (if (case os_Stat s (runtime EncryptionHash) of
                     Inl err \<Rightarrow> IsNotExist err | Inr info \<Rightarrow> False)
               then
                 (case os_ReadFile s (runtime EncryptionConfig) of
                    Inl err \<Rightarrow> (Inl err, s)
                  | Inr curEncryptionByte \<Rightarrow>
                      os_WriteFile (runtime EncryptionHash) (hash_record X curEncryptionByte) s)
               else (Inr (), s))
            else
              bind (rand_Read (KeySize X)) (\<lambda>keyByte.
              (let newKey = [\<lparr>keyName = keyName', keySecret = StdBase64 X keyByte\<rparr>];
                   provider =
                     (if EncryptProvider controlConfig = AESCBCProvider X
                      then [AESCBC newKey, Identity]
                      else if EncryptProvider controlConfig = SecretBoxProvider X
                        then [Secretbox newKey, Identity]
                      else []);
                   encConfig = \<lparr>encKind = ''EncryptionConfiguration'',
                                encAPIVersion = ''apiserver.config.k8s.io/v1'',
                                encResources = [\<lparr>rcResources = [''secrets''],
                                                 rcProviders = provider\<rparr>]\<rparr>;
                   b = EncryptionJSON encConfig in
               bind (AtomicWrite (runtime EncryptionConfig) b) (\<lambda>u.
               os_WriteFile (runtime EncryptionHash) (hash_record X b)))) s))"

definition genEgressSelectorConfig :: "ext \<Rightarrow> Control \<Rightarrow> unit M" where
  "genEgressSelectorConfig X controlConfig =
     (let clusterConn =
            (if EgressSelectorMode controlConfig = EgressSelectorModeDisabled X
             then \<lparr>connProxyProtocol = ProtocolDirect, connTransport = None\<rparr>
             else \<lparr>connProxyProtocol = ProtocolHTTPConnect,
                   connTransport = Some
                     \<lparr>tcpURL = ''https://'' @ BindAddressOrLoopback X controlConfig False True
                                @ '':'' @ dec (SupervisorPort controlConfig),
                      tlsCABundle = Runtime controlConfig ServerCA,
                      tlsClientKey = Runtime controlConfig ClientKubeAPIKey,
                      tlsClientCert = Runtime controlConfig ClientKubeAPICert\<rparr>\<rparr>);
          egressConfig = \<lparr>egKind = ''EgressSelectorConfiguration'',
                          egAPIVersion = ''apiserver.k8s.io/v1beta1'',
                          egressSelections = [\<lparr>egressName = ''cluster'',
                                               egressConnection = clusterConn\<rparr>]\<rparr>
      in os_WriteFile (Runtime controlConfig EgressSelectorConfig) (EgressJSON egressConfig))"

definition genCloudConfig :: "ext \<Rightarrow> Control \<Rightarrow> unit M" where
  "genCloudConfig X controlConfig =
     (let cloudConfig = \<lparr>LBDefaultPriorityClassName = DefaultLBPriorityClassName X,
                         LBEnabled = (\<not> DisableServiceLB controlConfig),
                         LBNamespace = ServiceLBNamespace controlConfig,
                         LBImage = DefaultLBImage X,
                         cloudRootless = Rootless controlConfig,
                         NodeEnabled = (\<not> DisableCCM controlConfig)\<rparr>;
          cloudConfig =
            (if SystemDefaultRegistry controlConfig \<noteq> []
             then cloudConfig\<lparr>LBImage := SystemDefaultRegistry controlConfig @ ''/'' @
                                           LBImage cloudConfig\<rparr>
             else cloudConfig)
      in os_WriteFile (Runtime controlConfig CloudControllerConfig) (CloudJSON cloudConfig))"

subsection \<open>The bootstrap sequence\<close>

definition GenServerDeps :: "ext \<Rightarrow> Control \<Rightarrow> unit M" where
  "GenServerDeps X config =
     (let runtime = Runtime config in
      bind (cleanupLegacyCerts config) (\<lambda>u.
      bind (genCerts X config) (\<lambda>u.
      bind (genServiceAccount runtime) (\<lambda>u.
      bind (genUsers X config) (\<lambda>u.
      bind (genEncryptedNetworkInfo X config) (\<lambda>u.
      bind (genEncryptionConfigAndState X config) (\<lambda>u.
      bind (genEgressSelectorConfig X config) (\<lambda>u.
      bind (genCloudConfig X config) (\<lambda>u.
      readTokens runtime)))))))))"


section \<open>Properties of states, and concrete inputs\<close>

text \<open>A state without injected faults; a file system whose inode counter is beyond every
  inode in use; a file that exists with a size above zero.\<close>

definition no_faults :: "state \<Rightarrow> bool" where
  "no_faults s = (\<forall>op p. fault s op p = None)"

definition wf_fs :: "state \<Rightarrow> bool" where
  "wf_fs s = (\<forall>p i. names s p = Some i \<longrightarrow> i < next_ino s)"

definition nonempty_file :: "state \<Rightarrow> path \<Rightarrow> bool" where
  "nonempty_file s p = (case content s p of None \<Rightarrow> False | Some d \<Rightarrow> nonempty_data d)"

text \<open>The events a run adds to the trace, and the files it opened for writing.\<close>

definition new_events :: "state \<Rightarrow> state \<Rightarrow> event list" where
  "new_events s s' = drop (length (trace s)) (trace s')"

definition written :: "event list \<Rightarrow> path set" where
  "written evs = {p. EvWrite p \<in> set evs}"

text \<open>Concrete inputs: the parameters as k3s has them (with simple stand-ins for the
  library functions), an empty data directory, and configurations over it.\<close>

definition k3s_ext :: ext where
  "k3s_ext = \<lparr>Program = ''k3s'', CertificateRenewDays = 90,
     AESCBCProvider = ''aescbc'', SecretBoxProvider = ''secretbox'', KeySize = 32,
     EgressSelectorModeDisabled = ''disabled'',
     DefaultLBPriorityClassName = ''system-node-critical'',
     DefaultLBImage = ''rancher/klipper-lb'',
     Loopback = (\<lambda>c urlSafe. ''127.0.0.1''),
     BindAddressOrLoopback = (\<lambda>c chooseHost urlSafe. ''127.0.0.1''),
     ParseUsernamePassword = (\<lambda>t. None),
     ParseIP = (\<lambda>t. if t \<noteq> [] \<and> list_all (\<lambda>c. c \<in> set ''0123456789.:abcdef'') t
                    then Some t else None),
     Sum256 = (\<lambda>d. ''digest''), StdBase64 = (\<lambda>b. b), pem_text = (\<lambda>d. []),
     leafValidity = 31536000, caValidity = 315360000\<rparr>"

definition empty_dir :: state where
  "empty_dir = \<lparr>names = Map.empty, inodes = (\<lambda>i. Bytes []), next_ino = 0, trace = [],
     fault = (\<lambda>op p. None), tape = (\<lambda>n. CHR ''k''), rpos = 0, entropy_ok = True,
     now = 1700000000, IPSECPSK = [], rtAgentToken = [], rtServerToken = []\<rparr>"

definition base_config :: Control where
  "base_config = \<lparr>DataDir = ''/d'', Token = [], AgentToken = [], SANs = [],
     ClusterDomain = ''cluster.local'', DisableETCD = False, EncryptSecrets = False,
     EncryptProvider = [], EgressSelectorMode = ''disabled'', SupervisorPort = 6443,
     APIServerPort = 6444, DisableServiceLB = False, ServiceLBNamespace = ''kube-system'',
     Rootless = False, DisableCCM = False, SystemDefaultRegistry = [],
     Runtime = (\<lambda>f. [])\<rparr>"

definition demo_config :: Control where
  "demo_config = CreateRuntimeCertFiles k3s_ext base_config"

definition enc_config :: Control where
  "enc_config = CreateRuntimeCertFiles k3s_ext
     (base_config\<lparr>EncryptSecrets := True, EncryptProvider := ''aescbc''\<rparr>)"

definition kms_config :: Control where
  "kms_config = CreateRuntimeCertFiles k3s_ext
     (base_config\<lparr>EncryptSecrets := True, EncryptProvider := ''kms''\<rparr>)"

definition apiserver_cert :: cert where
  "apiserver_cert = \<lparr>CommonName = ''kube-apiserver'', Organization = [],
     DNSNames = [''kubernetes'', ''extra.example''], IPAddresses = [''10.43.0.1''],
     SubjectKeyId = ''leaf'', AuthorityKeyId = ''ca'', NotAfter = 1800000000,
     ExtKeyUsages = [ExtKeyUsageServerAuth], IsCA = False\<rparr>"

definition dir_with_cert :: state where
  "dir_with_cert = empty_dir\<lparr>names := [''/d/a.crt'' \<mapsto> 0],
     inodes := (\<lambda>i. PEMCerts [apiserver_cert]), next_ino := 1\<rparr>"

definition dir_with_garbage :: state where
  "dir_with_garbage = empty_dir\<lparr>names := [''/d/a.crt'' \<mapsto> 0],
     inodes := (\<lambda>i. Bytes ''not a certificate''), next_ino := 1\<rparr>"

section \<open>Theorems\<close>

subsection \<open>The monad and the file system\<close>

lemma bind_Inr [simp]: "m s = (Inr x, s') \<Longrightarrow> bind m f s = f x s'"
  by (simp add: bind_def)

lemma bind_Inl [simp]: "m s = (Inl e, s') \<Longrightarrow> bind m f s = (Inl e, s')"
  by (simp add: bind_def)

lemma content_fresh_inode:
  "wf_fs s \<Longrightarrow>
   map_option ((inodes s)(next_ino s := d)) (names s p) = map_option (inodes s) (names s p)"
  by (cases "names s p") (auto simp: wf_fs_def)

lemma no_faults_empty_dir [simp]: "no_faults empty_dir"
  by (simp add: no_faults_def empty_dir_def)

lemma wf_fs_empty_dir [simp]: "wf_fs empty_dir"
  by (simp add: wf_fs_def empty_dir_def)

subsection \<open>Change detection\<close>

text \<open>
  Claim C4. For a certificate file that can be read, \<open>fieldsChanged\<close> asks for a new
  certificate exactly when the common name differs, or the organizations differ as sets
  (exact set equality), or some desired DNS name or some desired IP address is missing
  from the certificate's names (containment: names the certificate has beyond the desired
  ones are tolerated), or the certificate of the CA can be read and its subject key
  identifier is not the certificate's authority key identifier.
\<close>

theorem fieldsChanged_rules:
  assumes "CertsFromFile s certFile = Inr (c # cs)"
  shows "fieldsChanged s certFile commonName organization sans caCertFile =
     (CommonName c \<noteq> commonName
      \<or> set (Organization c) \<noteq> set organization
      \<or> \<not> set (altDNSNames (sans_or_empty sans)) \<subseteq> set (DNSNames c)
      \<or> \<not> set (altIPs (sans_or_empty sans)) \<subseteq> set (IPAddresses c)
      \<or> (\<exists>ca rest. CertsFromFile s caCertFile = Inr (ca # rest)
            \<and> AuthorityKeyId c \<noteq> SubjectKeyId ca))"
  using assms
  by (auto simp: fieldsChanged_def list_all_iff list_ex_iff split: sum.splits list.splits)

lemma CertsFromFile_dir_with_cert:
  "CertsFromFile dir_with_cert ''/d/a.crt'' = Inr [apiserver_cert]"
  by (simp add: CertsFromFile_def os_ReadFile_def content_def dir_with_cert_def empty_dir_def)

lemma CertsFromFile_dir_with_cert_ca:
  "CertsFromFile dir_with_cert ''/d/ca.crt'' = Inl (PathError ENOENT ''/d/ca.crt'')"
  by (simp add: CertsFromFile_def os_ReadFile_def content_def dir_with_cert_def empty_dir_def)

theorem fieldsChanged_rules_witness:
  "CertsFromFile dir_with_cert ''/d/a.crt'' = Inr [apiserver_cert]
   \<and> fieldsChanged dir_with_cert ''/d/a.crt'' ''kube-apiserver'' []
        (Some \<lparr>altDNSNames = [''kubernetes''], altIPs = [''10.43.0.1'']\<rparr>) ''/d/ca.crt'' = False
   \<and> fieldsChanged dir_with_cert ''/d/a.crt'' ''kube-apiserver'' []
        (Some \<lparr>altDNSNames = [''kubernetes'', ''new.example''], altIPs = []\<rparr>) ''/d/ca.crt''
       = True
   \<and> fieldsChanged dir_with_cert ''/d/a.crt'' ''kube-apiserver'' [''system:masters'']
        (Some \<lparr>altDNSNames = [''kubernetes''], altIPs = []\<rparr>) ''/d/ca.crt'' = True"
  using fieldsChanged_rules [OF CertsFromFile_dir_with_cert]
  by (simp add: CertsFromFile_dir_with_cert CertsFromFile_dir_with_cert_ca sans_or_empty_def
      apiserver_cert_def)

text \<open>
  Claim C5. When the certificate file cannot be read or parsed, \<open>expired\<close> returns false
  and \<open>fieldsChanged\<close> returns false: by itself an unreadable certificate never asks for a
  new one.
\<close>

theorem unreadable_cert_no_signal:
  assumes "CertsFromFile s certFile = Inl e"
  shows "expired X s certFile = Inr False
       \<and> fieldsChanged s certFile commonName organization sans caCertFile = False"
  using assms by (simp add: expired_def fieldsChanged_def)

lemma CertsFromFile_dir_with_garbage:
  "CertsFromFile dir_with_garbage ''/d/a.crt'' = Inl (InvalidCertData ''/d/a.crt'')"
  by (simp add: CertsFromFile_def os_ReadFile_def content_def dir_with_garbage_def
      empty_dir_def)

theorem unreadable_cert_no_signal_witness:
  "CertsFromFile dir_with_garbage ''/d/a.crt'' = Inl (InvalidCertData ''/d/a.crt'')
   \<and> expired k3s_ext dir_with_garbage ''/d/a.crt'' = Inr False
   \<and> fieldsChanged dir_with_garbage ''/d/a.crt'' ''kube-apiserver'' [] None ''/d/ca.crt''
       = False"
  using unreadable_cert_no_signal [OF CertsFromFile_dir_with_garbage]
  by (simp add: CertsFromFile_dir_with_garbage)

subsection \<open>Encryption configuration\<close>

text \<open>
  Claim C6. With secrets encryption enabled and a supported provider, on a state without
  faults: when no non-empty configuration file exists, \<open>genEncryptionConfigAndState\<close>
  writes a configuration whose provider list is the chosen provider followed by the
  identity provider, and a hash record holding \<open>start-\<close> followed by the hex text of the
  SHA-256 of the very bytes of the configuration file; when a non-empty configuration
  exists and the hash record is missing, the hash record is written from the existing
  file's bytes and no other file changes; when both exist, nothing changes at all.
\<close>

theorem encryption_bootstrap:
  assumes nf: "no_faults s" and wf: "wf_fs s" and ent: "entropy_ok s"
      and en: "EncryptSecrets cfg"
      and prov: "EncryptProvider cfg = AESCBCProvider X
                 \<or> EncryptProvider cfg = SecretBoxProvider X"
      and ne: "Runtime cfg EncryptionConfig \<noteq> Runtime cfg EncryptionHash"
  shows "(\<not> nonempty_file s (Runtime cfg EncryptionConfig) \<longrightarrow>
           (\<exists>k s'. genEncryptionConfigAndState X cfg s = (Inr (), s')
              \<and> content s' (Runtime cfg EncryptionConfig) =
                  Some (EncryptionJSON
                    \<lparr>encKind = ''EncryptionConfiguration'',
                     encAPIVersion = ''apiserver.config.k8s.io/v1'',
                     encResources = [\<lparr>rcResources = [''secrets''],
                       rcProviders = [if EncryptProvider cfg = AESCBCProvider X
                                      then AESCBC [k] else Secretbox [k], Identity]\<rparr>]\<rparr>)
              \<and> (\<exists>b. content s' (Runtime cfg EncryptionConfig) = Some b
                    \<and> content s' (Runtime cfg EncryptionHash) =
                        Some (Bytes (''start-'' @ hex_EncodeToString (Sum256 X b))))))
       \<and> (nonempty_file s (Runtime cfg EncryptionConfig) \<longrightarrow>
            content s (Runtime cfg EncryptionHash) = None \<longrightarrow>
           (\<exists>b s'. genEncryptionConfigAndState X cfg s = (Inr (), s')
              \<and> content s (Runtime cfg EncryptionConfig) = Some b
              \<and> content s' (Runtime cfg EncryptionHash) =
                  Some (Bytes (''start-'' @ hex_EncodeToString (Sum256 X b)))
              \<and> (\<forall>p. p \<noteq> Runtime cfg EncryptionHash \<longrightarrow> content s' p = content s p)))
       \<and> (nonempty_file s (Runtime cfg EncryptionConfig) \<longrightarrow>
            content s (Runtime cfg EncryptionHash) \<noteq> None \<longrightarrow>
            genEncryptionConfigAndState X cfg s = (Inr (), s))"
proof (intro conjI impI)
  assume a: "\<not> nonempty_file s (Runtime cfg EncryptionConfig)"
  show "\<exists>k s'. genEncryptionConfigAndState X cfg s = (Inr (), s')
              \<and> content s' (Runtime cfg EncryptionConfig) =
                  Some (EncryptionJSON
                    \<lparr>encKind = ''EncryptionConfiguration'',
                     encAPIVersion = ''apiserver.config.k8s.io/v1'',
                     encResources = [\<lparr>rcResources = [''secrets''],
                       rcProviders = [if EncryptProvider cfg = AESCBCProvider X
                                      then AESCBC [k] else Secretbox [k], Identity]\<rparr>]\<rparr>)
              \<and> (\<exists>b. content s' (Runtime cfg EncryptionConfig) = Some b
                    \<and> content s' (Runtime cfg EncryptionHash) =
                        Some (Bytes (''start-'' @ hex_EncodeToString (Sum256 X b))))"
    using a nf wf ent en prov ne
    by (auto simp: genEncryptionConfigAndState_def nonempty_file_def no_faults_def
        os_Stat_def rand_Read_def AtomicWrite_def os_WriteFile_def content_def hash_record_def
        bind_def Let_def wf_fs_def
        split: option.splits)
next
  assume a: "nonempty_file s (Runtime cfg EncryptionConfig)"
     and b: "content s (Runtime cfg EncryptionHash) = None"
  show "\<exists>b s'. genEncryptionConfigAndState X cfg s = (Inr (), s')
              \<and> content s (Runtime cfg EncryptionConfig) = Some b
              \<and> content s' (Runtime cfg EncryptionHash) =
                  Some (Bytes (''start-'' @ hex_EncodeToString (Sum256 X b)))
              \<and> (\<forall>p. p \<noteq> Runtime cfg EncryptionHash \<longrightarrow> content s' p = content s p)"
    using a b nf ent en prov ne content_fresh_inode [OF wf]
    by (auto simp: genEncryptionConfigAndState_def nonempty_file_def no_faults_def
        os_Stat_def os_ReadFile_def os_WriteFile_def content_def hash_record_def IsNotExist_def
        Let_def
        split: option.splits)
next
  assume a: "nonempty_file s (Runtime cfg EncryptionConfig)"
     and b: "content s (Runtime cfg EncryptionHash) \<noteq> None"
  show "genEncryptionConfigAndState X cfg s = (Inr (), s)"
    using a b nf wf ent en prov ne
    by (auto simp: genEncryptionConfigAndState_def nonempty_file_def no_faults_def
        os_Stat_def content_def Let_def
        split: option.splits)
qed

lemma enc_config_simps:
  "EncryptSecrets enc_config" "EncryptProvider enc_config = ''aescbc''"
  "Runtime enc_config EncryptionConfig = ''/d/cred/encryption-config.json''"
  "Runtime enc_config EncryptionHash = ''/d/cred/encryption-state.json''"
  by (simp_all add: enc_config_def CreateRuntimeCertFiles_def base_config_def Join_def)

theorem encryption_bootstrap_witness:
  "no_faults empty_dir \<and> wf_fs empty_dir \<and> entropy_ok empty_dir
   \<and> EncryptSecrets enc_config
   \<and> (EncryptProvider enc_config = AESCBCProvider k3s_ext
        \<or> EncryptProvider enc_config = SecretBoxProvider k3s_ext)
   \<and> Runtime enc_config EncryptionConfig \<noteq> Runtime enc_config EncryptionHash
   \<and> \<not> nonempty_file empty_dir (Runtime enc_config EncryptionConfig)
   \<and> (\<exists>k s' b. genEncryptionConfigAndState k3s_ext enc_config empty_dir = (Inr (), s')
         \<and> content s' ''/d/cred/encryption-config.json'' = Some b
         \<and> b = EncryptionJSON
                    \<lparr>encKind = ''EncryptionConfiguration'',
                     encAPIVersion = ''apiserver.config.k8s.io/v1'',
                     encResources = [\<lparr>rcResources = [''secrets''],
                       rcProviders = [AESCBC [k], Identity]\<rparr>]\<rparr>
         \<and> content s' ''/d/cred/encryption-state.json'' =
             Some (Bytes (''start-'' @ hex_EncodeToString (Sum256 k3s_ext b))))"
proof -
  have h1: "entropy_ok empty_dir" by (simp add: empty_dir_def)
  have h2: "EncryptProvider enc_config = AESCBCProvider k3s_ext
        \<or> EncryptProvider enc_config = SecretBoxProvider k3s_ext"
    by (simp add: enc_config_simps k3s_ext_def)
  have h3: "Runtime enc_config EncryptionConfig \<noteq> Runtime enc_config EncryptionHash"
    by (simp add: enc_config_simps)
  have h4: "\<not> nonempty_file empty_dir (Runtime enc_config EncryptionConfig)"
    by (simp add: nonempty_file_def content_def empty_dir_def)
  have h5: "EncryptProvider enc_config = AESCBCProvider k3s_ext"
    by (simp add: enc_config_simps k3s_ext_def)
  from encryption_bootstrap [OF no_faults_empty_dir wf_fs_empty_dir h1
      enc_config_simps(1) h2 h3, THEN conjunct1, rule_format, OF h4]
  obtain k s' b where
    "genEncryptionConfigAndState k3s_ext enc_config empty_dir = (Inr (), s')"
    "content s' (Runtime enc_config EncryptionConfig) =
       Some (EncryptionJSON
              \<lparr>encKind = ''EncryptionConfiguration'',
               encAPIVersion = ''apiserver.config.k8s.io/v1'',
               encResources = [\<lparr>rcResources = [''secrets''],
                 rcProviders = [if EncryptProvider enc_config = AESCBCProvider k3s_ext
                                then AESCBC [k] else Secretbox [k], Identity]\<rparr>]\<rparr>)"
    "content s' (Runtime enc_config EncryptionConfig) = Some b"
    "content s' (Runtime enc_config EncryptionHash) =
       Some (Bytes (''start-'' @ hex_EncodeToString (Sum256 k3s_ext b)))"
    by blast
  then have "\<exists>k s' b. genEncryptionConfigAndState k3s_ext enc_config empty_dir = (Inr (), s')
         \<and> content s' ''/d/cred/encryption-config.json'' = Some b
         \<and> b = EncryptionJSON
                    \<lparr>encKind = ''EncryptionConfiguration'',
                     encAPIVersion = ''apiserver.config.k8s.io/v1'',
                     encResources = [\<lparr>rcResources = [''secrets''],
                       rcProviders = [AESCBC [k], Identity]\<rparr>]\<rparr>
         \<and> content s' ''/d/cred/encryption-state.json'' =
             Some (Bytes (''start-'' @ hex_EncodeToString (Sum256 k3s_ext b)))"
    using h5 by (simp add: enc_config_simps(3,4)) blast
  then show ?thesis
    using h1 h2 h3 h4 enc_config_simps(1) by simp
qed

text \<open>
  Claim C7. With secrets encryption enabled and a provider that is neither of the two
  supported ones, \<open>genEncryptionConfigAndState\<close> returns the error and leaves the state as
  it was: no file is written.
\<close>

theorem unsupported_provider_rejected:
  assumes "EncryptSecrets controlConfig"
      and "EncryptProvider controlConfig \<noteq> AESCBCProvider X"
      and "EncryptProvider controlConfig \<noteq> SecretBoxProvider X"
  shows "genEncryptionConfigAndState X controlConfig s =
           (Inl (UnsupportedKeyType (EncryptProvider controlConfig)), s)"
  using assms by (simp add: genEncryptionConfigAndState_def)

lemma kms_config_simps:
  "EncryptSecrets kms_config" "EncryptProvider kms_config = ''kms''"
  by (simp_all add: kms_config_def CreateRuntimeCertFiles_def base_config_def)

theorem unsupported_provider_rejected_witness:
  "EncryptSecrets kms_config
   \<and> EncryptProvider kms_config \<noteq> AESCBCProvider k3s_ext
   \<and> EncryptProvider kms_config \<noteq> SecretBoxProvider k3s_ext
   \<and> genEncryptionConfigAndState k3s_ext kms_config empty_dir =
       (Inl (UnsupportedKeyType ''kms''), empty_dir)"
proof -
  have h2: "EncryptProvider kms_config \<noteq> AESCBCProvider k3s_ext"
    by (simp add: kms_config_simps k3s_ext_def)
  have h3: "EncryptProvider kms_config \<noteq> SecretBoxProvider k3s_ext"
    by (simp add: kms_config_simps k3s_ext_def)
  show ?thesis
    using unsupported_provider_rejected [OF kms_config_simps(1) h2 h3, of empty_dir] h2 h3
    by (simp add: kms_config_simps)
qed

end
